theory Spec2Isabelle
  imports Complex_Main "HOL-Library.Word"
begin

section \<open>The sound-wave factory of solution.py\<close>

text \<open>
  The class \<open>SoundWaveFactory\<close> of \<open>src/solution.py\<close> is embedded function by function.
  A numpy array is a list. A float64 sample is read as the real number it stands for, so
  rounding of float arithmetic is not part of the model; the int16 samples that
  \<open>create_note\<close> returns are 16-bit words. A Python exception is a value of \<open>py_error\<close>,
  and a function that can raise returns \<open>py_error + 'a\<close>.
\<close>

subsection \<open>Errors\<close>

text \<open>
  \<open>ValueError\<close> carries its message (without the quote characters of the original text),
  \<open>KeyError\<close> the missing key.
\<close>

datatype py_error = ValueError string | KeyError string

subsection \<open>Class constants\<close>

definition SAMPLING_RATE :: nat where
  "SAMPLING_RATE = 44100"

definition DURATION_SECONDS :: nat where
  "DURATION_SECONDS = 5"

definition SOUND_ARRAY_LEN :: nat where
  "SOUND_ARRAY_LEN = SAMPLING_RATE * DURATION_SECONDS"

definition MAX_AMPLITUDE :: real where
  "MAX_AMPLITUDE = 2 ^ 13"

text \<open>The dict literal \<open>NOTES\<close>, entry by entry in the order of the source.\<close>

definition note_table :: "(string \<times> real) list" where
  "note_table =
   [(''0'', 0), (''e0'', 20.60172), (''f0'', 21.82676), (''f#0'', 23.12465),
    (''g0'', 24.49971), (''g#0'', 25.95654), (''a0'', 27.50000), (''a#0'', 29.13524),
    (''b0'', 30.86771), (''c0'', 32.70320), (''c#0'', 34.64783), (''d0'', 36.70810),
    (''d#0'', 38.89087),
    (''e1'', 41.20344), (''f1'', 43.65353), (''f#1'', 46.24930), (''g1'', 48.99943),
    (''g#1'', 51.91309), (''a1'', 55.00000), (''a#1'', 58.27047),
    (''b1'', 61.73541), (''c1'', 65.40639), (''c#1'', 69.29566), (''d1'', 73.41619),
    (''d#1'', 77.78175),
    (''e2'', 82.40689), (''f2'', 87.30706), (''f#2'', 92.49861), (''g2'', 97.99886),
    (''g#2'', 103.8262), (''a2'', 110.0000), (''a#2'', 116.5409),
    (''b2'', 123.4708), (''c2'', 130.8128), (''c#2'', 138.5913), (''d2'', 146.8324),
    (''d#2'', 155.5635),
    (''e3'', 164.8138), (''f3'', 174.6141), (''f#3'', 184.9972), (''g3'', 195.9977),
    (''g#3'', 207.6523), (''a3'', 220.0000), (''a#3'', 233.0819),
    (''b3'', 246.9417), (''c3'', 261.6256), (''c#3'', 277.1826), (''d3'', 293.6648),
    (''d#3'', 311.1270),
    (''e4'', 329.6276), (''f4'', 349.2282), (''f#4'', 369.9944), (''g4'', 391.9954),
    (''g#4'', 415.3047), (''a4'', 440.0000), (''a#4'', 466.1638),
    (''b4'', 493.8833), (''c4'', 523.2511), (''c#4'', 554.3653), (''d4'', 587.3295),
    (''d#4'', 622.2540),
    (''e5'', 659.2551), (''f5'', 698.4565), (''f#5'', 739.9888), (''g5'', 783.9909),
    (''g#5'', 830.6094), (''a5'', 880.0000), (''a#5'', 932.3275),
    (''b5'', 987.7666), (''c5'', 1046.502), (''c#5'', 1108.731), (''d5'', 1174.659),
    (''d#5'', 1244.508),
    (''e6'', 1318.510), (''f6'', 1396.913), (''f#6'', 1479.978), (''g6'', 1567.982),
    (''g#6'', 1661.219), (''a6'', 1760.000), (''a#6'', 1864.655),
    (''b6'', 1975.533), (''c6'', 2093.005), (''c#6'', 2217.461), (''d6'', 2349.318),
    (''d#6'', 2489.016),
    (''e7'', 2637.020), (''f7'', 2793.826), (''f#7'', 2959.955), (''g7'', 3135.963),
    (''g#7'', 3322.438), (''a7'', 3520.000), (''a#7'', 3729.310),
    (''b7'', 3951.066), (''c7'', 4186.009), (''c#7'', 4434.922), (''d7'', 4698.636),
    (''d#7'', 4978.032)]"

definition NOTES :: "string \<rightharpoonup> real" where
  "NOTES = map_of note_table"

subsection \<open>numpy helpers\<close>

text \<open>
  \<open>np.linspace(start, stop, num)\<close> with the default \<open>endpoint=True\<close>: \<open>num\<close> points from
  \<open>start\<close> to \<open>stop\<close>, both included; a single point is \<open>start\<close>; a negative \<open>num\<close> raises
  ValueError.
\<close>

definition linspace :: "real \<Rightarrow> real \<Rightarrow> int \<Rightarrow> py_error + real list" where
  "linspace start stop num =
     (if num < 0 then Inl (ValueError ''Number of samples must be non-negative'')
      else Inr (map (\<lambda>i. if num = 1 then start
                          else start + real i * ((stop - start) / real_of_int (num - 1)))
                    [0..<nat num]))"

text \<open>
  Conversion of a float to an integer drops the fraction (rounds towards zero): Python's
  \<open>int(x)\<close> and the C cast behind \<open>astype(np.int16)\<close>. The cast keeps the low 16 bits.
\<close>

definition trunc :: "real \<Rightarrow> int" where
  "trunc x = (if 0 \<le> x then \<lfloor>x\<rfloor> else \<lceil>x\<rceil>)"

definition astype_int16 :: "real \<Rightarrow> 16 word" where
  "astype_int16 x = word_of_int (trunc x)"

subsection \<open>Waveform generation\<close>

definition get_normed_sin :: "real list \<Rightarrow> real \<Rightarrow> real list" where
  "get_normed_sin timeline frequency =
     map (\<lambda>t. MAX_AMPLITUDE * sin (2 * pi * frequency * t)) timeline"

definition get_soundwave :: "real list \<Rightarrow> string \<Rightarrow> py_error + real list" where
  "get_soundwave timeline note =
     (case NOTES note of
        None \<Rightarrow> Inl (KeyError note)
      | Some frequency \<Rightarrow> Inr (get_normed_sin timeline frequency))"

definition create_note :: "string \<Rightarrow> real \<Rightarrow> py_error + 16 word list" where
  "create_note note duration =
     (case linspace 0 duration (int SOUND_ARRAY_LEN) of
        Inl e \<Rightarrow> Inl e
      | Inr timeline \<Rightarrow>
          (case get_soundwave timeline note of
             Inl e \<Rightarrow> Inl e
           | Inr sound_wave \<Rightarrow> Inr (map astype_int16 sound_wave)))"

subsection \<open>Wave shape conversion\<close>

definition convert_wave_type :: "real list \<Rightarrow> string \<Rightarrow> py_error + real list" where
  "convert_wave_type wave wave_type =
     (case linspace 0 1 (int (length wave)) of
        Inl e \<Rightarrow> Inl e
      | Inr x \<Rightarrow>
          if wave_type = ''triangular'' then
            Inr (map (\<lambda>x. (2 * \<bar>2 * (x - of_int \<lfloor>x + 0.5\<rfloor>)\<bar> - 1) * MAX_AMPLITUDE) x)
          else if wave_type = ''square'' then
            Inr (map (\<lambda>s. sgn s * MAX_AMPLITUDE) wave)
          else Inl (ValueError ''Unsupported wave type. Choose triangular or square.''))"

subsection \<open>Slices\<close>

text \<open>
  A bound \<open>i\<close> of a slice of a sequence of length \<open>n\<close>: a negative bound counts from the
  end, and the bound is clipped to \<open>0..n\<close>.
\<close>

definition slice_index :: "int \<Rightarrow> int \<Rightarrow> nat" where
  "slice_index n i = nat (if i < 0 then max 0 (n + i) else min i n)"

text \<open>
  \<open>arr[lo:hi] = vals\<close> on a numpy array, with the bounds already clipped: the slice has
  \<open>hi - lo\<close> elements (none when \<open>hi \<le> lo\<close>); \<open>vals\<close> must have as many, or exactly one
  (which is then broadcast over the slice); anything else raises ValueError.
\<close>

definition set_slice :: "real list \<Rightarrow> nat \<Rightarrow> nat \<Rightarrow> real list \<Rightarrow> py_error + real list" where
  "set_slice arr lo hi vals =
     (let k = hi - lo in
      if length vals = k then Inr (take lo arr @ vals @ drop (lo + k) arr)
      else if length vals = 1 then Inr (take lo arr @ replicate k (hd vals) @ drop (lo + k) arr)
      else Inl (ValueError ''could not broadcast input array''))"

subsection \<open>ADSR envelope\<close>

definition apply_adsr ::
  "real list \<Rightarrow> real \<Rightarrow> real \<Rightarrow> real \<Rightarrow> real \<Rightarrow> py_error + real list" where
  "apply_adsr wave attack decay sustain release =
     (let total_length = int (length wave);
          attack_length = trunc (real_of_int total_length * attack);
          decay_length = trunc (real_of_int total_length * decay);
          release_length = trunc (real_of_int total_length * release);
          envelope = replicate (length wave) 0
      in case linspace 0 1 attack_length of
           Inl e \<Rightarrow> Inl e
         | Inr ramp_a \<Rightarrow>
      (case set_slice envelope 0 (slice_index total_length attack_length) ramp_a of
           Inl e \<Rightarrow> Inl e
         | Inr envelope \<Rightarrow>
      (case linspace 1 sustain decay_length of
           Inl e \<Rightarrow> Inl e
         | Inr ramp_d \<Rightarrow>
      (case set_slice envelope (slice_index total_length attack_length)
              (slice_index total_length (attack_length + decay_length)) ramp_d of
           Inl e \<Rightarrow> Inl e
         | Inr envelope \<Rightarrow>
      (case linspace sustain 0 release_length of
           Inl e \<Rightarrow> Inl e
         | Inr ramp_r \<Rightarrow>
      (case set_slice envelope (slice_index total_length (- release_length))
              (length wave) ramp_r of
           Inl e \<Rightarrow> Inl e
         | Inr envelope \<Rightarrow> Inr (map2 (*) wave envelope)))))))"

subsection \<open>Melody strings\<close>

text \<open>
  A character of a melody string is read as a code point below 256. The character classes
  are those of Python's \<open>re\<close> on a \<open>str\<close> pattern within that range: \<open>[a-g]\<close>, \<open>\d\<close> (the
  decimal digits 0 to 9) and \<open>\s\<close> (the code points for which \<open>str.isspace\<close> holds:
  9 to 13, 28 to 32, 133 and 160).
\<close>

definition is_note_letter :: "char \<Rightarrow> bool" where
  "is_note_letter c = (c \<in> set ''abcdefg'')"

definition is_digit :: "char \<Rightarrow> bool" where
  "is_digit c = (c \<in> set ''0123456789'')"

definition is_space :: "char \<Rightarrow> bool" where
  "is_space c = ((of_char c :: nat) \<in> {9, 10, 11, 12, 13, 28, 29, 30, 31, 32, 133, 160})"

text \<open>
  The first group of the pattern, \<open>([a-g][#]?\d)\<close>, matched at the head of the string: the
  note and the rest of the string. The greedy \<open>[#]?\<close> takes a \<open>#\<close> when there is one; giving
  it back would leave \<open>\d\<close> facing that \<open>#\<close>, so no backtracking is needed.
\<close>

definition match_note :: "string \<Rightarrow> (string \<times> string) option" where
  "match_note s =
     (case s of
        [] \<Rightarrow> None
      | l # s1 \<Rightarrow>
          if is_note_letter l then
            (let sharp = takeWhile (\<lambda>c. c = CHR ''#'') (take 1 s1);
                 s2 = drop (length sharp) s1
             in case s2 of
                  [] \<Rightarrow> None
                | d # rest \<Rightarrow> if is_digit d then Some (l # sharp @ [d], rest) else None)
          else None)"

text \<open>
  The body of the optional second group, \<open>\s\d*\.?\d*s\<close>, matched at the head of the
  string. Each greedy quantifier takes all it can; a shorter choice never lets the final
  \<open>s\<close> match where the longest one does not, so again no backtracking is needed.
\<close>

definition match_duration :: "string \<Rightarrow> (string \<times> string) option" where
  "match_duration s =
     (case s of
        [] \<Rightarrow> None
      | w # s1 \<Rightarrow>
          if is_space w then
            (let ds1 = takeWhile is_digit s1;
                 s2 = dropWhile is_digit s1;
                 dot = takeWhile (\<lambda>c. c = CHR ''.'') (take 1 s2);
                 s3 = drop (length dot) s2;
                 ds2 = takeWhile is_digit s3;
                 s4 = dropWhile is_digit s3
             in case s4 of
                  [] \<Rightarrow> None
                | c # rest \<Rightarrow>
                    if c = CHR ''s'' then Some (w # ds1 @ dot @ ds2 @ [c], rest) else None)
          else None)"

lemma match_note_shorter: "match_note s = Some (note, rest) \<Longrightarrow> length rest < length s"
  by (auto simp: match_note_def Let_def split: list.splits if_splits
           dest!: arg_cong [where f = length])

lemma match_duration_shorter:
  "match_duration s = Some (duration, rest) \<Longrightarrow> length rest < length s"
proof -
  have "length (dropWhile P (drop k (dropWhile Q xs))) \<le> length xs" for P Q k and xs :: string
  proof -
    have "length (dropWhile P (drop k (dropWhile Q xs))) \<le> length (drop k (dropWhile Q xs))"
      by (rule length_dropWhile_le)
    also have "\<dots> \<le> length (dropWhile Q xs)" by simp
    also have "\<dots> \<le> length xs" by (rule length_dropWhile_le)
    finally show ?thesis .
  qed
  then show "match_duration s = Some (duration, rest) \<Longrightarrow> length rest < length s"
    by (auto simp: match_duration_def Let_def split: list.splits if_splits
             dest!: arg_cong [where f = length]) (metis Suc_le_lessD le_SucI length_Cons)
qed

text \<open>
  \<open>re.findall\<close> with the pattern \<open>([a-g][#]?\d)(\s\d*\.?\d*s)?\<close>: the string is scanned from
  left to right, each match gives the pair of its two groups (an absent second group is
  the empty string), and the scan goes on behind the match.
\<close>

function notes_with_duration :: "string \<Rightarrow> (string \<times> string) list" where
  "notes_with_duration [] = []"
| "notes_with_duration (c # cs) =
     (case match_note (c # cs) of
        None \<Rightarrow> notes_with_duration cs
      | Some (note, rest) \<Rightarrow>
          (case match_duration rest of
             None \<Rightarrow> (note, []) # notes_with_duration rest
           | Some (duration, rest') \<Rightarrow> (note, duration) # notes_with_duration rest'))"
  by pat_completeness auto
termination
  by (relation "measure length")
     (auto dest!: match_note_shorter match_duration_shorter)

text \<open>
  \<open>float(s)\<close> on the strings that the pattern lets through: surrounding whitespace is
  stripped, and what remains is digits, an optional point and digits, with at least one
  digit; its value is the decimal number written. Anything else is ValueError here.
\<close>

definition strip :: "string \<Rightarrow> string" where
  "strip s = rev (dropWhile is_space (rev (dropWhile is_space s)))"

definition digits_value :: "string \<Rightarrow> nat" where
  "digits_value ds = foldl (\<lambda>acc c. 10 * acc + (of_char c - 48)) 0 ds"

definition py_float :: "string \<Rightarrow> py_error + real" where
  "py_float s =
     (let t = strip s;
          ip = takeWhile is_digit t;
          r1 = dropWhile is_digit t;
          r2 = drop (length (takeWhile (\<lambda>c. c = CHR ''.'') (take 1 r1))) r1;
          fp = takeWhile is_digit r2;
          r3 = dropWhile is_digit r2
      in if r3 \<noteq> [] \<or> (ip = [] \<and> fp = [])
         then Inl (ValueError ''could not convert string to float'')
         else Inr (real (digits_value ip) + real (digits_value fp) / 10 ^ length fp))"

text \<open>
  Line 202: \<open>float(duration[:-1]) if duration else DURATION_SECONDS\<close>.
\<close>

definition melody_duration :: "string \<Rightarrow> py_error + real" where
  "melody_duration duration =
     (if duration \<noteq> [] then py_float (butlast duration) else Inr (real DURATION_SECONDS))"

text \<open>
  The loop of \<open>generate_melody\<close>, with \<open>combined_wave\<close> as its state (\<open>None\<close> before the
  first note). The sum of two int16 arrays wraps around; all waves of \<open>create_note\<close> have
  the same length.
\<close>

fun melody_loop ::
  "(string \<times> string) list \<Rightarrow> 16 word list option \<Rightarrow> py_error + 16 word list option" where
  "melody_loop [] combined_wave = Inr combined_wave"
| "melody_loop ((note, duration) # rest) combined_wave =
     (case melody_duration duration of
        Inl e \<Rightarrow> Inl e
      | Inr d \<Rightarrow>
          (case create_note note d of
             Inl e \<Rightarrow> Inl e
           | Inr wave \<Rightarrow>
               melody_loop rest
                 (Some (case combined_wave of
                          None \<Rightarrow> wave
                        | Some cw \<Rightarrow> map2 (+) cw wave))))"

definition generate_melody :: "string \<Rightarrow> py_error + 16 word list option" where
  "generate_melody melody_str = melody_loop (notes_with_duration melody_str) None"

text \<open>
  The grammar of the melody tokens, as the specification words it, to compare the matcher
  with: a note is a letter \<open>a\<close> to \<open>g\<close>, an optional \<open>#\<close> and a digit; a duration is one
  whitespace character, digits, an optional point, digits, and a final \<open>s\<close>. The pattern
  does not ask for a digit in the duration (\<open>duration_shape\<close>); a duration that has one is
  a \<open>duration_token\<close>, together with the decimal number it writes (digits after the point
  only behind a point).
\<close>

definition note_token :: "string \<Rightarrow> bool" where
  "note_token n =
     (\<exists>l sharp d. n = l # sharp @ [d] \<and> l \<in> set ''abcdefg''
        \<and> sharp \<in> {[], ''#''} \<and> d \<in> set ''0123456789'')"

definition duration_parts :: "char \<Rightarrow> string \<Rightarrow> string \<Rightarrow> string \<Rightarrow> bool" where
  "duration_parts w ds1 dot ds2 =
     (is_space w \<and> list_all is_digit ds1 \<and> dot \<in> {[], ''.''} \<and> list_all is_digit ds2)"

definition duration_shape :: "string \<Rightarrow> bool" where
  "duration_shape d =
     (\<exists>w ds1 dot ds2. d = w # ds1 @ dot @ ds2 @ ''s'' \<and> duration_parts w ds1 dot ds2)"

definition duration_token :: "string \<Rightarrow> real \<Rightarrow> bool" where
  "duration_token d v =
     (\<exists>w ds1 dot ds2. d = w # ds1 @ dot @ ds2 @ ''s'' \<and> duration_parts w ds1 dot ds2
        \<and> (dot = [] \<longrightarrow> ds2 = []) \<and> 0 < length ds1 + length ds2
        \<and> v = real (digits_value ds1) + real (digits_value ds2) / 10 ^ length ds2)"

subsection \<open>Normalization\<close>

text \<open>
  A float division of numpy raises nothing: dividing by zero gives \<open>nan\<close> or \<open>inf\<close> (and a
  warning). Such a sample is \<open>None\<close> here, a finite one \<open>Some\<close> of its value.
\<close>

definition np_divide :: "real \<Rightarrow> real \<Rightarrow> real option" where
  "np_divide x y = (if y = 0 then None else Some (x / y))"

text \<open>
  The loop of \<open>normalize_sound_waves\<close>; \<open>np.max\<close> of an empty array raises ValueError.
\<close>

fun normalize_loop :: "nat \<Rightarrow> real list list \<Rightarrow> py_error + real option list list" where
  "normalize_loop min_length [] = Inr []"
| "normalize_loop min_length (wave # rest) =
     (if wave = [] then Inl (ValueError ''zero-size array to reduction operation maximum'')
      else
        (let peak = Max (set (map abs wave));
             normalized_wave = map (\<lambda>x. np_divide x peak) (take min_length wave)
         in case normalize_loop min_length rest of
              Inl e \<Rightarrow> Inl e
            | Inr normalized_waves \<Rightarrow> Inr (normalized_wave # normalized_waves)))"

definition normalize_sound_waves :: "real list list \<Rightarrow> py_error + real option list list" where
  "normalize_sound_waves waves =
     (if waves = [] then Inl (ValueError ''min() arg is an empty sequence'')
      else normalize_loop (Min (set (map length waves))) waves)"

section \<open>Properties\<close>

subsection \<open>Helper facts\<close>

lemma linspace_length:
  "0 \<le> num \<Longrightarrow> \<exists>xs. linspace start stop num = Inr xs \<and> length xs = nat num"
  by (simp add: linspace_def)

lemma set_slice_exact:
  "length vals = hi - lo \<Longrightarrow> lo \<le> hi \<Longrightarrow> hi \<le> length arr \<Longrightarrow>
   set_slice arr lo hi vals = Inr (take lo arr @ vals @ drop hi arr)"
  by (simp add: set_slice_def)

lemma trunc_nonneg: "0 \<le> x \<Longrightarrow> trunc x = \<lfloor>x\<rfloor>"
  by (simp add: trunc_def)

subsection \<open>Length of a note\<close>

text \<open>
  C1. For every note name present in the note table and every requested duration,
  \<open>create_note\<close> returns a waveform of exactly \<open>SAMPLING_RATE * DURATION_SECONDS\<close>
  = 44100 * 5 = 220500 samples, whatever the requested duration is.
\<close>

theorem create_note_length:
  assumes "NOTES note = Some frequency"
  shows "\<exists>wave. create_note note duration = Inr wave
           \<and> length wave = SAMPLING_RATE * DURATION_SECONDS
           \<and> length wave = 220500"
proof -
  obtain timeline where t: "linspace 0 duration (int SOUND_ARRAY_LEN) = Inr timeline"
    and len: "length timeline = nat (int SOUND_ARRAY_LEN)"
    using linspace_length [of "int SOUND_ARRAY_LEN" 0 duration] by auto
  have "create_note note duration = Inr (map astype_int16 (get_normed_sin timeline frequency))"
    using assms t by (simp add: create_note_def get_soundwave_def)
  moreover have "length (map astype_int16 (get_normed_sin timeline frequency)) = SOUND_ARRAY_LEN"
    using len by (simp add: get_normed_sin_def)
  ultimately show ?thesis
    by (simp add: SOUND_ARRAY_LEN_def SAMPLING_RATE_def DURATION_SECONDS_def)
qed

theorem create_note_length_witness:
  "NOTES ''a4'' = Some 440
   \<and> (\<exists>wave. create_note ''a4'' 2 = Inr wave
         \<and> length wave = SAMPLING_RATE * DURATION_SECONDS \<and> length wave = 220500)"
proof -
  have h: "NOTES ''a4'' = Some 440"
    by (simp add: NOTES_def note_table_def)
  show ?thesis
    using h create_note_length [OF h, of 2] by simp
qed

subsection \<open>Wave shape conversion\<close>

lemma triangle_bound: "\<bar>2 * \<bar>2 * (x - of_int \<lfloor>x + 0.5\<rfloor>)\<bar> - 1\<bar> \<le> (1::real)"
proof -
  have "of_int \<lfloor>x + 0.5\<rfloor> \<le> x + 0.5" "x + 0.5 < of_int \<lfloor>x + 0.5\<rfloor> + 1"
    by linarith+
  then show ?thesis by (simp add: abs_le_iff) linarith
qed

text \<open>
  C6. With shape \<open>triangular\<close>, \<open>convert_wave_type\<close> depends only on the length of the input
  wave, not on its samples: two waves of equal length give identical outputs. The output
  is a ramp of the input's length whose samples lie within \<open>MAX_AMPLITUDE\<close>.
\<close>

theorem triangular_ignores_samples:
  assumes "length w1 = length w2"
  shows "convert_wave_type w1 ''triangular'' = convert_wave_type w2 ''triangular''
         \<and> (\<exists>out. convert_wave_type w1 ''triangular'' = Inr out
               \<and> length out = length w1
               \<and> (\<forall>i < length out. \<bar>out ! i\<bar> \<le> MAX_AMPLITUDE))"
proof -
  have "\<bar>(2 * \<bar>2 * (x - of_int \<lfloor>x + 0.5\<rfloor>)\<bar> - 1) * MAX_AMPLITUDE\<bar> \<le> MAX_AMPLITUDE" for x :: real
    using triangle_bound [of x] mult_right_mono [of "\<bar>2 * \<bar>2 * (x - of_int \<lfloor>x + 0.5\<rfloor>)\<bar> - 1\<bar>" 1 MAX_AMPLITUDE]
    by (simp add: abs_mult MAX_AMPLITUDE_def)
  then show ?thesis
    using assms by (simp add: convert_wave_type_def linspace_def)
qed

theorem triangular_ignores_samples_witness:
  "length [1, 2, 3 :: real] = length [40, -50, 60 :: real]
   \<and> convert_wave_type [1, 2, 3] ''triangular'' = convert_wave_type [40, -50, 60] ''triangular''
   \<and> convert_wave_type [1, 2, 3] ''triangular'' = Inr [- 8192, 8192, - 8192]"
proof -
  have "convert_wave_type [1, 2, 3] ''triangular'' = Inr [- 8192, 8192, - 8192]"
    by (simp add: convert_wave_type_def linspace_def MAX_AMPLITUDE_def upt_rec)
  then show ?thesis
    using triangular_ignores_samples [of "[1, 2, 3]" "[40, -50, 60]"] by simp
qed

text \<open>
  C7. For every wave and every shape other than \<open>triangular\<close> and \<open>square\<close> (such as
  \<open>bogus\<close>), \<open>convert_wave_type\<close> fails with the ValueError for an unsupported wave type
  (the spec's UnsupportedWaveTypeError); for the shapes \<open>triangular\<close> and \<open>square\<close> it
  returns a wave.
\<close>

theorem convert_wave_type_unsupported:
  "(wave_type \<noteq> ''triangular'' \<and> wave_type \<noteq> ''square'' \<longrightarrow>
      convert_wave_type wave wave_type
        = Inl (ValueError ''Unsupported wave type. Choose triangular or square.''))
   \<and> (\<exists>out. convert_wave_type wave ''triangular'' = Inr out)
   \<and> (\<exists>out. convert_wave_type wave ''square'' = Inr out)"
  by (simp add: convert_wave_type_def linspace_def)

theorem convert_wave_type_unsupported_witness:
  "convert_wave_type [1, -2, 0] ''bogus''
     = Inl (ValueError ''Unsupported wave type. Choose triangular or square.'')
   \<and> (\<exists>out. convert_wave_type [1, -2, 0] ''triangular'' = Inr out)
   \<and> (\<exists>out. convert_wave_type [1, -2, 0] ''square'' = Inr out)"
  using convert_wave_type_unsupported [of "''bogus''" "[1, -2, 0]"] by simp

subsection \<open>ADSR envelope\<close>

lemma apply_adsr_ok:
  fixes wave :: "real list"
  assumes a: "trunc (real (length wave) * attack) = int a"
    and d: "trunc (real (length wave) * decay) = int d"
    and r: "trunc (real (length wave) * release) = int r"
    and le: "a + d + r \<le> length wave" and r1: "1 \<le> r"
  shows "\<exists>out. apply_adsr wave attack decay sustain release = Inr out
           \<and> length out = length wave
           \<and> (\<forall>i. a + d \<le> i \<and> i < length wave - r \<longrightarrow> out ! i = 0)"
proof -
  define n where "n = length wave"
  obtain ra where ra: "linspace 0 1 (int a) = Inr ra" "length ra = a"
    using linspace_length [of "int a" 0 1] by auto
  obtain rd where rd: "linspace 1 sustain (int d) = Inr rd" "length rd = d"
    using linspace_length [of "int d" 1 sustain] by auto
  obtain rr where rr: "linspace sustain 0 (int r) = Inr rr" "length rr = r"
    using linspace_length [of "int r" sustain 0] by auto
  define e0 where "e0 = replicate n (0::real)"
  define e1 where "e1 = take 0 e0 @ ra @ drop a e0"
  define e2 where "e2 = take a e1 @ rd @ drop (a + d) e1"
  define e3 where "e3 = take (n - r) e2 @ rr @ drop n e2"
  have l0: "length e0 = n" by (simp add: e0_def)
  have i1: "slice_index (int n) (int a) = a" "slice_index (int n) (int a + int d) = a + d"
     "slice_index (int n) (- int r) = n - r"
    using le r1 by (simp_all add: slice_index_def n_def nat_add_distrib nat_diff_distrib)
  have s1: "set_slice e0 0 a ra = Inr e1"
    unfolding e1_def using le ra l0 by (intro set_slice_exact) (simp_all add: n_def)
  have l1: "length e1 = n" using le ra l0 by (simp add: e1_def n_def)
  have s2: "set_slice e1 a (a + d) rd = Inr e2"
    unfolding e2_def using le rd l1 by (intro set_slice_exact) (simp_all add: n_def)
  have l2: "length e2 = n" using le ra rd l1 by (simp add: e2_def n_def)
  have s3: "set_slice e2 (n - r) n rr = Inr e3"
    unfolding e3_def using le rr l2 r1 by (intro set_slice_exact) (simp_all add: n_def)
  have l3: "length e3 = n" using le rr l2 by (simp add: e3_def n_def)
  have out: "apply_adsr wave attack decay sustain release = Inr (map2 (*) wave e3)"
    unfolding apply_adsr_def Let_def
    using a d r ra rd rr s1 s2 s3 i1 by (simp add: n_def e0_def)
  have zero: "e3 ! i = 0" if "a + d \<le> i" "i < n - r" for i
  proof -
    have "e3 ! i = e2 ! i" using that l2 by (simp add: e3_def nth_append)
    also have "\<dots> = e1 ! i" using that l1 le rd(2) by (auto simp add: e2_def nth_append n_def)
    also have "\<dots> = e0 ! i" using that l0 le ra(2) by (auto simp add: e1_def nth_append n_def)
    also have "\<dots> = 0" using that by (simp add: e0_def)
    finally show ?thesis .
  qed
  have prod: "map2 (*) wave e3 ! i = 0" if "a + d \<le> i" "i < n - r" for i
  proof -
    have "i < length wave" "i < length e3" using that l3 by (simp_all add: n_def)
    then show ?thesis using zero [OF that] by simp
  qed
  have "length (map2 (*) wave e3) = length wave"
    using l3 by (simp add: n_def)
  moreover have "\<forall>i. a + d \<le> i \<and> i < length wave - r \<longrightarrow> map2 (*) wave e3 ! i = 0"
    using prod unfolding n_def by blast
  ultimately show ?thesis
    using out by blast
qed



text \<open>
  C9. For every nonempty wave, \<open>apply_adsr\<close> called with \<open>release = 0\<close>, a value inside the
  documented range of fractions, raises instead of returning a waveform: the slice
  \<open>envelope[-0:]\<close> is the whole array and is assigned an empty \<open>linspace\<close>. Attack 0 and
  decay 0 do not fail in this way: with both 0 and a release window of at least one sample,
  a waveform is returned.
\<close>

theorem adsr_release_zero_raises:
  fixes wave :: "real list"
  shows "(wave \<noteq> [] \<longrightarrow> (\<exists>e. apply_adsr wave attack decay sustain 0 = Inl e))
       \<and> (wave \<noteq> [] \<and> 0 \<le> release \<and> release \<le> 1
            \<and> 1 \<le> trunc (real (length wave) * release) \<longrightarrow>
          (\<exists>out. apply_adsr wave 0 0 sustain release = Inr out \<and> length out = length wave))"
proof (intro conjI impI)
  assume ne: "wave \<noteq> []"
  have "set_slice env (slice_index (int (length wave)) 0) (length wave) []
          = Inl (ValueError ''could not broadcast input array'')" for env
    using ne by (simp add: set_slice_def slice_index_def)
  then show "\<exists>e. apply_adsr wave attack decay sustain 0 = Inl e"
    by (simp add: apply_adsr_def Let_def trunc_def linspace_def split: sum.splits)
next
  assume h: "wave \<noteq> [] \<and> 0 \<le> release \<and> release \<le> 1
            \<and> 1 \<le> trunc (real (length wave) * release)"
  define r where "r = nat \<lfloor>real (length wave) * release\<rfloor>"
  have nn: "0 \<le> real (length wave) * release" using h by simp
  have tr: "trunc (real (length wave) * release) = int r"
    using nn by (simp add: trunc_nonneg r_def)
  have "real (length wave) * release \<le> real (length wave)"
    using h by (simp add: mult_left_le)
  then have "\<lfloor>real (length wave) * release\<rfloor> \<le> int (length wave)"
    by (simp add: floor_le_iff)
  then have le: "0 + 0 + r \<le> length wave" by (simp add: r_def)
  have r1: "1 \<le> r" using h tr by simp
  have z: "trunc (real (length wave) * 0) = int 0" by (simp add: trunc_def)
  show "\<exists>out. apply_adsr wave 0 0 sustain release = Inr out \<and> length out = length wave"
    using apply_adsr_ok [OF z z tr le r1, of sustain] by blast
qed

theorem adsr_release_zero_raises_witness:
  "apply_adsr [3, 4] (1/2) (1/2) (7/10) 0 = Inl (ValueError ''could not broadcast input array'')
   \<and> (\<exists>e. apply_adsr [3, 4] (1/2) (1/2) (7/10) 0 = Inl e)
   \<and> (\<exists>out. apply_adsr [3, 4] 0 0 (7/10) (1/2) = Inr out \<and> length out = length [3, 4 :: real])"
proof -
  have v: "apply_adsr [3, 4] (1/2) (1/2) (7/10) 0
             = Inl (ValueError ''could not broadcast input array'')"
    by (simp add: apply_adsr_def Let_def trunc_def linspace_def slice_index_def set_slice_def)
  have t: "trunc (real (length [3, 4 :: real]) * (1/2)) = 1"
    by (simp add: trunc_def)
  show ?thesis
    using v adsr_release_zero_raises [of "[3, 4]" "1/2" "1/2" "7/10" "1/2"]
    unfolding t by simp
qed

subsection \<open>The matcher against the token grammar\<close>

lemma digit_not_other:
  "is_digit c \<Longrightarrow> c \<noteq> CHR ''#'' \<and> c \<noteq> CHR ''.'' \<and> c \<noteq> CHR ''s'' \<and> \<not> is_space c"
  by (auto simp: is_digit_def is_space_def)

lemma match_note_complete:
  assumes "note_token n"
  shows "match_note (n @ rest) = Some (n, rest)"
proof -
  obtain l sharp d where n: "n = l # sharp @ [d]" and l: "is_note_letter l"
    and s: "sharp = [] \<or> sharp = ''#''" and d: "is_digit d"
    using assms by (auto simp: note_token_def is_note_letter_def is_digit_def)
  from s show ?thesis
  proof
    assume "sharp = []"
    then show ?thesis using n l d digit_not_other [OF d]
      by (simp add: match_note_def)
  next
    assume "sharp = ''#''"
    then show ?thesis using n l d
      by (simp add: match_note_def)
  qed
qed

lemma match_note_sound:
  assumes "match_note s = Some (n, rest)"
  shows "note_token n \<and> s = n @ rest"
proof -
  obtain l s1 where s: "s = l # s1" and l: "is_note_letter l"
    using assms by (auto simp: match_note_def split: list.splits if_splits)
  define sharp where "sharp = takeWhile (\<lambda>c. c = CHR ''#'') (take 1 s1)"
  have sh: "sharp = [] \<or> sharp = ''#''"
    unfolding sharp_def by (cases s1) auto
  have pre: "s1 = sharp @ drop (length sharp) s1"
    unfolding sharp_def by (cases s1) auto
  obtain d where d: "drop (length sharp) s1 = d # rest" "is_digit d" "n = l # sharp @ [d]"
    using assms s l unfolding match_note_def sharp_def
    by (auto simp: Let_def split: list.splits if_splits)
  have "note_token n"
    unfolding note_token_def using d l sh
    by (auto simp: is_note_letter_def is_digit_def)
  moreover have "s = n @ rest" using s pre d by simp
  ultimately show ?thesis by simp
qed

lemma takeWhile_digits:
  "list_all is_digit ds \<Longrightarrow> (xs = [] \<or> \<not> is_digit (hd xs)) \<Longrightarrow>
   takeWhile is_digit (ds @ xs) = ds \<and> dropWhile is_digit (ds @ xs) = xs"
  by (cases xs) (auto simp: list_all_iff takeWhile_append2 dropWhile_append2)

lemma match_duration_complete:
  assumes "duration_shape d"
  shows "match_duration (d @ rest) = Some (d, rest)"
proof -
  obtain w ds1 dot ds2 where d: "d = w # ds1 @ dot @ ds2 @ ''s''"
    and w: "is_space w" and d1: "list_all is_digit ds1" and d2: "list_all is_digit ds2"
    and dot: "dot = [] \<or> dot = ''.''"
    using assms by (auto simp: duration_shape_def duration_parts_def)
  have ns: "\<not> is_digit CHR ''s''" "\<not> is_digit CHR ''.''"
    by (simp_all add: is_digit_def)
  from dot show ?thesis
  proof
    assume e: "dot = []"
    have "list_all is_digit (ds1 @ ds2)" using d1 d2 by simp
    then have t: "takeWhile is_digit ((ds1 @ ds2) @ CHR ''s'' # rest) = ds1 @ ds2"
        "dropWhile is_digit ((ds1 @ ds2) @ CHR ''s'' # rest) = CHR ''s'' # rest"
      using takeWhile_digits [of "ds1 @ ds2" "CHR ''s'' # rest"] ns by simp_all
    show ?thesis
      using w e t ns by (simp add: match_duration_def d)
  next
    assume e: "dot = ''.''"
    have t1: "takeWhile is_digit (ds1 @ CHR ''.'' # ds2 @ CHR ''s'' # rest) = ds1"
        "dropWhile is_digit (ds1 @ CHR ''.'' # ds2 @ CHR ''s'' # rest)
           = CHR ''.'' # ds2 @ CHR ''s'' # rest"
      using takeWhile_digits [OF d1, of "CHR ''.'' # ds2 @ CHR ''s'' # rest"] ns by simp_all
    have t2: "takeWhile is_digit (ds2 @ CHR ''s'' # rest) = ds2"
        "dropWhile is_digit (ds2 @ CHR ''s'' # rest) = CHR ''s'' # rest"
      using takeWhile_digits [OF d2, of "CHR ''s'' # rest"] ns by simp_all
    show ?thesis
      using w e t1 t2 by (simp add: match_duration_def d)
  qed
qed

lemma match_duration_sound:
  assumes "match_duration s = Some (d, rest)"
  shows "duration_shape d \<and> s = d @ rest"
proof -
  obtain w s1 where s: "s = w # s1"
    using assms by (cases s) (simp_all add: match_duration_def)
  have w: "is_space w"
    using assms unfolding s match_duration_def by (simp split: if_splits)
  define ds1 where "ds1 = takeWhile is_digit s1"
  define s2 where "s2 = dropWhile is_digit s1"
  define dot where "dot = takeWhile (\<lambda>c. c = CHR ''.'') (take 1 s2)"
  define s3 where "s3 = drop (length dot) s2"
  define ds2 where "ds2 = takeWhile is_digit s3"
  define s4 where "s4 = dropWhile is_digit s3"
  have md: "match_duration s =
      (case s4 of [] \<Rightarrow> None
       | c # rest \<Rightarrow> if c = CHR ''s'' then Some (w # ds1 @ dot @ ds2 @ [c], rest) else None)"
    unfolding s4_def ds2_def s3_def dot_def s2_def ds1_def s match_duration_def Let_def
    using w by simp
  obtain c r' where s4: "s4 = c # r'"
    using assms md by (cases s4) simp_all
  have r: "s4 = CHR ''s'' # rest" "d = w # ds1 @ dot @ ds2 @ ''s''"
    using assms md s4 by (simp_all split: if_splits)
  have e1: "s1 = ds1 @ s2" by (simp add: ds1_def s2_def)
  have dd: "(dot = [] \<or> dot = ''.'') \<and> s2 = dot @ s3"
  proof (cases s2)
    case Nil
    then show ?thesis by (simp add: dot_def s3_def)
  next
    case (Cons x xs)
    then show ?thesis by (cases "x = CHR ''.''") (simp_all add: dot_def s3_def)
  qed
  have e3: "s3 = ds2 @ s4" by (simp add: ds2_def s4_def)
  have a1: "list_all is_digit ds1" "list_all is_digit ds2"
    unfolding ds1_def ds2_def list_all_iff by (auto dest: set_takeWhileD)
  have "duration_parts w ds1 dot ds2"
    unfolding duration_parts_def using w dd a1 by auto
  then have "duration_shape d"
    unfolding duration_shape_def using r(2) by blast
  moreover have "s = w # ds1 @ dot @ ds2 @ s4" using s e1 dd e3 by simp
  then have "s = d @ rest" using r by simp
  ultimately show ?thesis by simp
qed

lemma nwd_note_duration:
  assumes "note_token n" "duration_shape d"
  shows "notes_with_duration (n @ d @ rest) = (n, d) # notes_with_duration rest"
proof -
  obtain c cs where c: "n @ d @ rest = c # cs"
    using assms(1) by (auto simp: note_token_def)
  have "match_note (c # cs) = Some (n, d @ rest)"
    using match_note_complete [OF assms(1), of "d @ rest"] c by simp
  moreover have "match_duration (d @ rest) = Some (d, rest)"
    by (rule match_duration_complete [OF assms(2)])
  ultimately show ?thesis
    unfolding c by simp
qed

lemma nwd_note_only:
  assumes "note_token n" "\<not> (\<exists>d r. rest = d @ r \<and> duration_shape d)"
  shows "notes_with_duration (n @ rest) = (n, []) # notes_with_duration rest"
proof -
  obtain c cs where c: "n @ rest = c # cs"
    using assms(1) by (auto simp: note_token_def)
  have "match_note (c # cs) = Some (n, rest)"
    using match_note_complete [OF assms(1), of rest] c by simp
  moreover have "match_duration rest = None"
  proof (cases "match_duration rest")
    case None
    then show ?thesis .
  next
    case (Some p)
    then show ?thesis
      using match_duration_sound [of rest "fst p" "snd p"] assms(2) by auto
  qed
  ultimately show ?thesis
    unfolding c by simp
qed

lemma nwd_skip:
  assumes "\<not> (\<exists>n r. c # cs = n @ r \<and> note_token n)"
  shows "notes_with_duration (c # cs) = notes_with_duration cs"
proof -
  have "match_note (c # cs) = None"
  proof (cases "match_note (c # cs)")
    case None
    then show ?thesis .
  next
    case (Some p)
    then show ?thesis
      using match_note_sound [of "c # cs" "fst p" "snd p"] assms by auto
  qed
  then show ?thesis by simp
qed

lemma nwd_shape:
  "(n, d) \<in> set (notes_with_duration s) \<Longrightarrow> note_token n \<and> (d = [] \<or> duration_shape d)"
proof (induction s rule: notes_with_duration.induct)
  case 1
  then show ?case by simp
next
  case (2 c cs)
  show ?case
  proof (cases "match_note (c # cs)")
    case None
    then show ?thesis using "2.IH"(1) "2.prems" by simp
  next
    case (Some p)
    obtain n0 r0 where p: "p = (n0, r0)" by (cases p)
    have nt: "note_token n0" using match_note_sound [of "c # cs" n0 r0] Some p by simp
    show ?thesis
    proof (cases "match_duration r0")
      case None
      then show ?thesis using "2.IH"(2) [OF \<open>match_note (c # cs) = Some p\<close> p [symmetric] None] "2.prems" \<open>match_note (c # cs) = Some p\<close> p nt by auto
    next
      case (Some q)
      obtain d0 r1 where q: "q = (d0, r1)" by (cases q)
      have "duration_shape d0"
        using match_duration_sound [of r0 d0 r1] Some q by simp
      then show ?thesis using "2.IH"(3) [OF \<open>match_note (c # cs) = Some p\<close> p [symmetric] Some q [symmetric]] "2.prems" \<open>match_note (c # cs) = Some p\<close> p Some q nt by auto
    qed
  qed
qed

lemma strip_body:
  assumes "is_space w" "body \<noteq> []" "\<not> is_space (hd body)" "\<not> is_space (last body)"
  shows "strip (w # body) = body"
proof -
  have 1: "dropWhile is_space (w # body) = body"
    using assms by (cases body) simp_all
  have 2: "dropWhile is_space (rev body) = rev body"
    using assms by (cases "rev body") (simp_all add: last_rev [symmetric] hd_rev)
  show ?thesis
    unfolding strip_def 1 2 by simp
qed

lemma duration_tokenE:
  assumes "duration_token d v"
  obtains w ds1 dot ds2 where "d = w # ds1 @ dot @ ds2 @ ''s''"
    "is_space w" "list_all is_digit ds1" "list_all is_digit ds2"
    "dot = [] \<and> ds2 = [] \<or> dot = ''.''" "0 < length ds1 + length ds2"
    "v = real (digits_value ds1) + real (digits_value ds2) / 10 ^ length ds2"
proof -
  from assms obtain w ds1 dot ds2 where h: "d = w # ds1 @ dot @ ds2 @ ''s''"
     "duration_parts w ds1 dot ds2" "dot = [] \<longrightarrow> ds2 = []" "0 < length ds1 + length ds2"
     "v = real (digits_value ds1) + real (digits_value ds2) / 10 ^ length ds2"
    unfolding duration_token_def by blast
  from h(2) have p: "is_space w" "list_all is_digit ds1" "dot = [] \<or> dot = ''.''" "list_all is_digit ds2"
    unfolding duration_parts_def by simp_all
  from p(3) h(3) have "dot = [] \<and> ds2 = [] \<or> dot = ''.''" by blast
  with h p that show ?thesis by blast
qed


lemma py_float_parts:
  assumes ip: "list_all is_digit ip" and fp: "list_all is_digit fp"
    and st: "strip s = ip @ dot @ fp"
    and dot: "dot = [] \<and> fp = [] \<or> dot = ''.''"
    and ne: "0 < length ip + length fp"
  shows "py_float s = Inr (real (digits_value ip) + real (digits_value fp) / 10 ^ length fp)"
  using dot
proof
  assume e: "dot = [] \<and> fp = []"
  have t: "takeWhile is_digit (ip @ []) = ip" "dropWhile is_digit (ip @ []) = []"
    using takeWhile_digits [OF ip, of "[]"] by simp_all
  have n: "ip \<noteq> []" using ne e by simp
  have s: "strip s = ip @ []" using st e by simp
  show ?thesis
    unfolding py_float_def s Let_def t using e n by simp
next
  assume e: "dot = ''.''"
  have nd: "\<not> is_digit CHR ''.''" by (simp add: is_digit_def)
  have t1: "takeWhile is_digit (ip @ CHR ''.'' # fp) = ip"
      "dropWhile is_digit (ip @ CHR ''.'' # fp) = CHR ''.'' # fp"
    using takeWhile_digits [OF ip, of "CHR ''.'' # fp"] nd by simp_all
  have t2: "takeWhile is_digit fp = fp" "dropWhile is_digit fp = []"
    using takeWhile_digits [OF fp, of "[]"] by simp_all
  have s: "strip s = ip @ CHR ''.'' # fp" using st e by simp
  have n: "\<not> (ip = [] \<and> fp = [])" using ne by auto
  show ?thesis
    unfolding py_float_def s Let_def t1 using n by (simp add: t2)
qed


lemma melody_duration_value:
  assumes "duration_token d v"
  shows "melody_duration d = Inr v"
proof -
  from assms obtain w ds1 dot ds2 where d: "d = w # ds1 @ dot @ ds2 @ ''s''"
    and w: "is_space w" and d1: "list_all is_digit ds1" and d2: "list_all is_digit ds2"
    and dot: "dot = [] \<and> ds2 = [] \<or> dot = ''.''" and ne: "0 < length ds1 + length ds2"
    and v: "v = real (digits_value ds1) + real (digits_value ds2) / 10 ^ length ds2"
    by (rule duration_tokenE)
  define body where "body = ds1 @ dot @ ds2"
  have bl: "butlast d = w # body"
    unfolding d body_def by (simp add: butlast_append)
  have nsd: "\<not> is_space CHR ''.''" by (simp add: is_space_def)
  have "set body \<subseteq> set ds1 \<union> {CHR ''.''} \<union> set ds2"
    using dot unfolding body_def by auto
  moreover have "\<not> is_space c" if "c \<in> set ds1 \<union> set ds2" for c
    using that d1 d2 digit_not_other [of c] unfolding list_all_iff by blast
  ultimately have nsp: "\<not> is_space c" if "c \<in> set body" for c
    using that nsd by blast
  have bne: "body \<noteq> []" using ne unfolding body_def by simp
  have st: "strip (w # body) = body"
    using w bne nsp [of "hd body"] nsp [of "last body"] by (intro strip_body) simp_all
  have "py_float (w # body) = Inr v"
    unfolding v body_def by (rule py_float_parts [OF d1 d2 st [unfolded body_def] dot ne])
  then show ?thesis
    unfolding melody_duration_def bl using d by simp
qed

end
